theory Spec2Isabelle
  imports Complex_Main "HOL-Library.Sublist"
begin

section \<open>The review data model of \<open>reviews/models.py\<close>\<close>

text \<open>
  The module declares Django model classes and a few helper methods on them. Each model
  class is a record, the tables the helpers query are lists of rows inside a
  \<open>database\<close> record that every querying helper takes as an argument, and every
  exception the helpers can meet is a value of \<open>error\<close>.

  Conventions of the embedding:
  \<^item> a primary key is \<open>nat option\<close>, \<open>None\<close> for an object that was never saved;
  \<^item> a foreign key column holds the key of the row it points to, \<open>None\<close> for SQL NULL
    (or for a field not yet set on an object in memory);
  \<^item> \<open>CharField\<close> and \<open>TextField\<close> values are \<open>string\<close>s, with the empty string as the
    default the framework gives them;
  \<^item> \<open>FloatField\<close> values are real numbers: the rounding of machine floats is not part
    of the model;
  \<^item> a \<open>datetime\<close> is an integer number of clock ticks, and the clock reading of
    \<open>datetime.datetime.now()\<close> is an argument of the function that reads it;
  \<^item> a queryset is the list of the matching rows in table order; the default ordering
    that \<open>Meta\<close> declares for some models is not modelled, and no property below depends
    on the order of a queryset other than the one \<open>order_by\<close> asks for;
  \<^item> a filter \<open>column__id=value\<close> compares the column with the value as \<open>nat option\<close>s:
    with Python's \<open>None\<close> the framework tests the column for NULL, which is the same
    comparison.
\<close>

subsection \<open>Exceptions\<close>

datatype error = DoesNotExist | AttributeError | ValueError | IntegrityError | DatabaseError

type_synonym datetime = int

subsection \<open>Model classes\<close>

text \<open>\<open>django.contrib.auth.models.User\<close>: only its primary key is read by this module.\<close>

record User =
  user_id :: "nat option"
  username :: string

record Source =
  source_pk :: "nat option"
  source_name :: string
  url :: string
  is_default :: bool

text \<open>
  The many-to-many fields \<open>sources\<close> and \<open>co_authors\<close> of \<open>Review\<close> live in join
  tables of the database, as the framework stores them.
\<close>

record Review =
  review_id :: "nat option"
  review_name :: string
  review_title :: string
  review_description :: string
  review_author :: "nat option"
  create_date :: "datetime option"
  last_update :: "datetime option"
  objective :: string
  review_status :: string
  quality_assessment_cutoff_score :: real
  study_selection_strategy :: string
  quality_assessment_strategy :: string
  data_extraction_strategy :: string

record Question =
  question_id :: "nat option"
  question_review :: "nat option"
  question :: string
  population :: string
  intervention :: string
  comparison :: string
  outcome :: string
  question_type :: string

record SelectionCriteria =
  criteria_id :: "nat option"
  criteria_review :: "nat option"
  criteria_type :: string
  criteria_description :: string

record Article =
  article_id :: "nat option"
  article_review :: "nat option"
  bibtex_key :: string
  article_title :: string
  article_author :: string
  journal :: string
  year :: string
  article_source :: "nat option"
  pages :: string
  volume :: string
  article_abstract :: string
  document_type :: string
  author_keywords :: string
  article_note :: string
  search_session :: "nat option"
  article_status :: string

record Keyword =
  keyword_id :: "nat option"
  keyword_review :: "nat option"
  keyword_description :: string
  synonym_of :: "nat option"

record QualityAnswer =
  answer_id :: "nat option"
  answer_review :: "nat option"
  answer_description :: string
  weight :: real

record QualityQuestion =
  quality_question_id :: "nat option"
  quality_question_review :: "nat option"
  quality_question_description :: string

record QualityAssessment =
  assessment_id :: "nat option"
  assessment_user :: "nat option"
  assessment_article :: "nat option"
  assessment_question :: "nat option"
  assessment_answer :: "nat option"
  assessment_date :: "datetime option"

record DataExtractionField =
  field_id :: "nat option"
  field_review :: "nat option"
  field_description :: string
  field_type :: string

subsection \<open>The database\<close>

text \<open>
  One list of rows for each \<open>Model.objects\<close> manager the helpers use, and the join table
  of \<open>Review.co_authors\<close> as pairs (review key, user key).
\<close>

record database =
  User_objects :: "User list"
  Review_objects :: "Review list"
  Review_co_authors :: "(nat \<times> nat) list"
  Question_objects :: "Question list"
  SelectionCriteria_objects :: "SelectionCriteria list"
  Article_objects :: "Article list"
  Keyword_objects :: "Keyword list"
  QualityAnswer_objects :: "QualityAnswer list"
  QualityQuestion_objects :: "QualityQuestion list"
  QualityAssessment_objects :: "QualityAssessment list"

definition empty_database :: database where
  "empty_database =
     \<lparr>User_objects = [], Review_objects = [], Review_co_authors = [],
      Question_objects = [], SelectionCriteria_objects = [], Article_objects = [],
      Keyword_objects = [], QualityAnswer_objects = [], QualityQuestion_objects = [],
      QualityAssessment_objects = []\<rparr>"

subsection \<open>What the helpers use of the framework\<close>

text \<open>
  \<open>queryset[:1].get()\<close>: the first row of the queryset, \<open>DoesNotExist\<close> when it has none.
  The slice keeps at most one row, so \<open>MultipleObjectsReturned\<close> cannot happen.
\<close>

definition first_get :: "'a list \<Rightarrow> error + 'a" where
  "first_get rows = (case take 1 rows of [] \<Rightarrow> Inl DoesNotExist | row # _ \<Rightarrow> Inr row)"

text \<open>
  Reading a foreign key attribute that may not be null (\<open>self.author\<close>, \<open>self.review\<close>):
  the row of the target table with that key; \<open>DoesNotExist\<close> when the column is unset
  or no row has the key.
\<close>

definition related :: "('a \<Rightarrow> nat option) \<Rightarrow> 'a list \<Rightarrow> nat option \<Rightarrow> error + 'a" where
  "related pk rows fk =
     (case fk of
        None \<Rightarrow> Inl DoesNotExist
      | Some k \<Rightarrow> first_get (filter (\<lambda>row. pk row = Some k) rows))"

text \<open>
  Reading a foreign key attribute declared \<open>null=True\<close> (\<open>quality_assessment.answer\<close>):
  Python's \<open>None\<close> when the column is NULL, the target row otherwise.
\<close>

definition related_nullable ::
  "('a \<Rightarrow> nat option) \<Rightarrow> 'a list \<Rightarrow> nat option \<Rightarrow> error + 'a option" where
  "related_nullable pk rows fk =
     (case fk of
        None \<Rightarrow> Inr None
      | Some k \<Rightarrow> map_sum id Some (first_get (filter (\<lambda>row. pk row = Some k) rows)))"

text \<open>
  \<open>Model.save(force_insert=False, force_update=False)\<close> of the framework on one table.
  The two options are all that \<open>*args, **kwargs\<close> can carry in the model: \<open>using\<close> names
  another database and \<open>update_fields\<close>, in later versions of the framework, a subset of
  the columns, and the model has one database and writes every column.
\<close>

record save_args =
  force_insert :: bool
  force_update :: bool

definition default_args :: save_args where
  "default_args = \<lparr>force_insert = False, force_update = False\<rparr>"

text \<open>The key the database gives a new row: one that no row of the table has.\<close>

definition next_key :: "('a \<Rightarrow> nat option) \<Rightarrow> 'a list \<Rightarrow> nat" where
  "next_key pk rows = Suc (fold max (map (\<lambda>row. case pk row of None \<Rightarrow> 0 | Some k \<Rightarrow> k) rows) 0)"

text \<open>
  A write is refused by the database with \<open>IntegrityError\<close> when a column declared
  without \<open>null=True\<close> is unset (\<open>not_null\<close> says that none is) or when an insert repeats
  a key. What else the database checks depends on the backend (the length limit of a
  column, the row a foreign key points to, the connection itself): \<open>backend\<close> says whether
  the backend in use accepts the row, and a refusal is a \<open>DatabaseError\<close>. A refused write
  changes no row.

  An update that is forced and meets no row raises \<open>DatabaseError\<close>.
\<close>

definition Model_update ::
  "('a \<Rightarrow> nat option) \<Rightarrow> ('a \<Rightarrow> bool) \<Rightarrow> ('a \<Rightarrow> bool) \<Rightarrow> nat \<Rightarrow> 'a \<Rightarrow> 'a list
     \<Rightarrow> error + 'a list" where
  "Model_update pk not_null backend k obj rows =
     (if \<not> list_ex (\<lambda>row. pk row = Some k) rows then Inl DatabaseError
      else if \<not> not_null obj then Inl IntegrityError
      else if \<not> backend obj then Inl DatabaseError
      else Inr (map (\<lambda>row. if pk row = Some k then obj else row) rows))"

definition Model_insert ::
  "('a \<Rightarrow> nat option) \<Rightarrow> (nat option \<Rightarrow> 'a \<Rightarrow> 'a) \<Rightarrow> ('a \<Rightarrow> bool) \<Rightarrow> ('a \<Rightarrow> bool) \<Rightarrow> 'a
     \<Rightarrow> 'a list \<Rightarrow> 'a \<times> (error + 'a list)" where
  "Model_insert pk set_pk not_null backend obj rows =
     (if \<not> not_null obj then (obj, Inl IntegrityError)
      else if pk obj \<noteq> None \<and> list_ex (\<lambda>row. pk row = pk obj) rows
      then (obj, Inl IntegrityError)
      else if \<not> backend obj then (obj, Inl DatabaseError)
      else (let obj' = (case pk obj of
                          None \<Rightarrow> set_pk (Some (next_key pk rows)) obj
                        | Some k \<Rightarrow> obj)
            in (obj', Inr (rows @ [obj']))))"

text \<open>
  The save itself. Both options together, or a forced update of an object without a
  key, raise \<open>ValueError\<close>. An object with a key is written over the row with that key
  when there is one (or when the update is forced), and inserted otherwise; an object
  without a key is inserted and receives its key. Before the write the framework lets
  every field prepare its value (\<open>pre_save\<close>, told whether the write is an insert): that is
  where \<open>auto_now_add\<close> sets a date. The result is the object as the call leaves it and
  either the exception raised or the rows of the table after the write.
\<close>

definition Model_save ::
  "('a \<Rightarrow> nat option) \<Rightarrow> (nat option \<Rightarrow> 'a \<Rightarrow> 'a) \<Rightarrow> (bool \<Rightarrow> 'a \<Rightarrow> 'a) \<Rightarrow> ('a \<Rightarrow> bool)
     \<Rightarrow> ('a \<Rightarrow> bool) \<Rightarrow> save_args \<Rightarrow> 'a \<Rightarrow> 'a list \<Rightarrow> 'a \<times> (error + 'a list)" where
  "Model_save pk set_pk pre_save not_null backend args obj rows =
     (if force_insert args \<and> force_update args then (obj, Inl ValueError)
      else case pk obj of
        None \<Rightarrow>
          if force_update args then (obj, Inl ValueError)
          else Model_insert pk set_pk not_null backend (pre_save True obj) rows
      | Some k \<Rightarrow>
          if force_update args \<or> (\<not> force_insert args \<and> list_ex (\<lambda>row. pk row = Some k) rows)
          then (pre_save False obj,
                Model_update pk not_null backend k (pre_save False obj) rows)
          else Model_insert pk set_pk not_null backend (pre_save True obj) rows)"

text \<open>A field that prepares nothing before a write.\<close>

definition no_pre_save :: "bool \<Rightarrow> 'a \<Rightarrow> 'a" where
  "no_pre_save add obj = obj"

text \<open>Python's \<open>needle in haystack\<close> on strings: some position of the haystack starts with the needle.\<close>

fun str_in :: "string \<Rightarrow> string \<Rightarrow> bool" where
  "str_in needle [] = (needle = [])"
| "str_in needle (c # cs) = (prefix needle (c # cs) \<or> str_in needle cs)"

subsection \<open>\<open>Source\<close>\<close>

text \<open>
  \<^verbatim>\<open>
  def set_url(self, value):
      if "http://" not in value and "https://" not in value and len(value) > 0:
          self.url = "http://" + str(value)
      else:
          self.url = value
  \<close>
  The object is mutated in place; the model returns the updated object. On a byte string
  \<open>str(value)\<close> is \<open>value\<close>.
\<close>

definition set_url :: "Source \<Rightarrow> string \<Rightarrow> Source" where
  "set_url self value =
     (if \<not> str_in ''http://'' value \<and> \<not> str_in ''https://'' value \<and> length value > 0
      then self\<lparr>url := ''http://'' @ value\<rparr>
      else self\<lparr>url := value\<rparr>)"

subsection \<open>\<open>DataExtractionField\<close>\<close>

definition SELECT_ONE_FIELD :: string where "SELECT_ONE_FIELD = ''O''"
definition SELECT_MANY_FIELD :: string where "SELECT_MANY_FIELD = ''M''"

text \<open>
  \<^verbatim>\<open>
  def is_select_field(self):
      return self.field_type in (self.SELECT_ONE_FIELD, self.SELECT_MANY_FIELD)
  \<close>
\<close>

definition is_select_field :: "DataExtractionField \<Rightarrow> bool" where
  "is_select_field self = (field_type self \<in> set [SELECT_ONE_FIELD, SELECT_MANY_FIELD])"

subsection \<open>\<open>Review\<close>\<close>

text \<open>
  The columns of \<open>Review\<close> declared without \<open>null=True\<close> that an object can leave unset,
  and what \<open>auto_now_add=True\<close> does to \<open>create_date\<close> before an insert; \<open>created\<close> is
  the clock reading the framework takes then.
\<close>

definition Review_not_null :: "Review \<Rightarrow> bool" where
  "Review_not_null r \<longleftrightarrow> review_author r \<noteq> None \<and> create_date r \<noteq> None \<and> last_update r \<noteq> None"

definition Review_pre_save :: "datetime \<Rightarrow> bool \<Rightarrow> Review \<Rightarrow> Review" where
  "Review_pre_save created add r = (if add then r\<lparr>create_date := Some created\<rparr> else r)"

text \<open>
  \<^verbatim>\<open>
  def save(self):
      self.last_update = datetime.datetime.now()
      super(Review, self).save()
  \<close>
  \<open>now\<close> is what the clock returns when \<open>save\<close> reads it. The result is the object as the
  call leaves it, and the exception raised or the database after the write.
\<close>

definition Review_save ::
  "(Review \<Rightarrow> bool) \<Rightarrow> datetime \<Rightarrow> datetime \<Rightarrow> database \<Rightarrow> Review
     \<Rightarrow> Review \<times> (error + database)" where
  "Review_save backend now created db self =
     (let self1 = self\<lparr>last_update := Some now\<rparr>;
          (self2, result) = Model_save review_id (\<lambda>k r. r\<lparr>review_id := k\<rparr>)
                              (Review_pre_save created) Review_not_null backend default_args
                              self1 (Review_objects db)
      in (self2, case result of
                   Inl e \<Rightarrow> Inl e
                 | Inr rows \<Rightarrow> Inr (db\<lparr>Review_objects := rows\<rparr>)))"

text \<open>\<open>Question()\<close>: a new object with every field at the framework's default.\<close>

definition Question_init :: Question where
  "Question_init =
     \<lparr>question_id = None, question_review = None, question = [], population = [],
      intervention = [], comparison = [], outcome = [], question_type = []\<rparr>"

text \<open>
  \<^verbatim>\<open>
  def get_main_question(self):
      try:
          question = Question.objects.filter(review__id=self.id, question_type='M')[:1].get()
      except Question.DoesNotExist:
          question = Question()
      return question
  \<close>
\<close>

definition get_main_question :: "database \<Rightarrow> Review \<Rightarrow> error + Question" where
  "get_main_question db self =
     (case first_get (filter (\<lambda>q. question_review q = review_id self \<and> question_type q = ''M'')
                        (Question_objects db)) of
        Inl DoesNotExist \<Rightarrow> Inr Question_init
      | Inl e \<Rightarrow> Inl e
      | Inr found \<Rightarrow> Inr found)"

text \<open>
  \<open>self.co_authors.all()\<close>: the users joined to the review by the join table. The
  framework refuses a many-to-many attribute on an object without a key with
  \<open>ValueError\<close>.
\<close>

definition co_authors_all :: "database \<Rightarrow> Review \<Rightarrow> error + User list" where
  "co_authors_all db self =
     (case review_id self of
        None \<Rightarrow> Inl ValueError
      | Some k \<Rightarrow>
          Inr (filter (\<lambda>u. list_ex (\<lambda>(r, c). r = k \<and> user_id u = Some c) (Review_co_authors db))
                 (User_objects db)))"

text \<open>
  \<^verbatim>\<open>
  def is_author_or_coauthor(self, user):
      if user.id == self.author.id:
          return True
      for co_author in self.co_authors.all():
          if user.id == co_author.id:
              return True
      return False
  \<close>
\<close>

fun co_author_loop :: "User \<Rightarrow> User list \<Rightarrow> bool" where
  "co_author_loop user [] = False"
| "co_author_loop user (co_author # rest) =
     (if user_id user = user_id co_author then True else co_author_loop user rest)"

definition is_author_or_coauthor :: "database \<Rightarrow> Review \<Rightarrow> User \<Rightarrow> error + bool" where
  "is_author_or_coauthor db self user =
     (case related user_id (User_objects db) (review_author self) of
        Inl e \<Rightarrow> Inl e
      | Inr author \<Rightarrow>
          if user_id user = user_id author then Inr True
          else (case co_authors_all db self of
                  Inl e \<Rightarrow> Inl e
                | Inr co_authors \<Rightarrow> Inr (co_author_loop user co_authors)))"

text \<open>
  \<^verbatim>\<open>
  def get_source_articles(self, source_id=None):
      if source_id is None:
          return Article.objects.filter(review__id=self.id)
      else:
          return Article.objects.filter(review__id=self.id, source__id=source_id)
  \<close>
\<close>

definition get_source_articles :: "database \<Rightarrow> Review \<Rightarrow> nat option \<Rightarrow> Article list" where
  "get_source_articles db self source_id =
     (if source_id = None
      then filter (\<lambda>a. article_review a = review_id self) (Article_objects db)
      else filter (\<lambda>a. article_review a = review_id self \<and> article_source a = source_id)
             (Article_objects db))"

text \<open>\<open>order_by('-weight')\<close>: the rows by descending weight.\<close>

definition order_by_weight_desc :: "QualityAnswer list \<Rightarrow> QualityAnswer list" where
  "order_by_weight_desc rows = sort_key (\<lambda>a. - weight a) rows"

text \<open>The truth value of a model instance in a condition: an object is true.\<close>

definition truth :: "'a \<Rightarrow> bool" where
  "truth obj = True"

text \<open>
  \<^verbatim>\<open>
  def calculate_quality_assessment_max_score(self):
      try:
          questions_count = QualityQuestion.objects.filter(review__id=self.id).count()
          higher_weight_answer = QualityAnswer.objects.filter(review__id=self.id).order_by('-weight')[:1].get()
          if questions_count and higher_weight_answer:
              return questions_count * higher_weight_answer.weight
          else:
              return 0.0
      except:
          return 0.0
  \<close>
  \<open>max_score_try\<close> is the body of the \<open>try\<close>; the bare \<open>except\<close> turns every exception
  into \<open>0.0\<close>.
\<close>

definition max_score_try :: "database \<Rightarrow> Review \<Rightarrow> error + real" where
  "max_score_try db self =
     (let questions_count =
            length (filter (\<lambda>q. quality_question_review q = review_id self) (QualityQuestion_objects db))
      in case first_get (order_by_weight_desc
                (filter (\<lambda>a. answer_review a = review_id self) (QualityAnswer_objects db))) of
           Inl e \<Rightarrow> Inl e
         | Inr higher_weight_answer \<Rightarrow>
             if questions_count \<noteq> 0 \<and> truth higher_weight_answer
             then Inr (real questions_count * weight higher_weight_answer)
             else Inr 0)"

definition calculate_quality_assessment_max_score :: "database \<Rightarrow> Review \<Rightarrow> error + real" where
  "calculate_quality_assessment_max_score db self =
     (case max_score_try db self of Inl e \<Rightarrow> Inr 0 | Inr score \<Rightarrow> Inr score)"

subsection \<open>\<open>SelectionCriteria\<close> and \<open>Keyword\<close>\<close>

text \<open>
  \<^verbatim>\<open>
  def save(self, *args, **kwargs):
      self.description = self.description[:200]
      super(SelectionCriteria, self).save(*args, **kwargs)
  \<close>
  and the same in \<open>Keyword\<close>. The arguments go to the framework's save as they come.
  The one column of each class that is declared without \<open>null=True\<close> and that an
  object can leave unset is \<open>review\<close>. The result is the object as the call leaves it,
  and the exception raised or the database after the write.
\<close>

definition SelectionCriteria_not_null :: "SelectionCriteria \<Rightarrow> bool" where
  "SelectionCriteria_not_null c \<longleftrightarrow> criteria_review c \<noteq> None"

definition SelectionCriteria_save ::
  "(SelectionCriteria \<Rightarrow> bool) \<Rightarrow> save_args \<Rightarrow> database \<Rightarrow> SelectionCriteria
     \<Rightarrow> SelectionCriteria \<times> (error + database)" where
  "SelectionCriteria_save backend args db self =
     (let self1 = self\<lparr>criteria_description := take 200 (criteria_description self)\<rparr>;
          (self2, result) = Model_save criteria_id (\<lambda>k c. c\<lparr>criteria_id := k\<rparr>) no_pre_save
                              SelectionCriteria_not_null backend args
                              self1 (SelectionCriteria_objects db)
      in (self2, case result of
                   Inl e \<Rightarrow> Inl e
                 | Inr rows \<Rightarrow> Inr (db\<lparr>SelectionCriteria_objects := rows\<rparr>)))"

definition Keyword_not_null :: "Keyword \<Rightarrow> bool" where
  "Keyword_not_null w \<longleftrightarrow> keyword_review w \<noteq> None"

definition Keyword_save ::
  "(Keyword \<Rightarrow> bool) \<Rightarrow> save_args \<Rightarrow> database \<Rightarrow> Keyword \<Rightarrow> Keyword \<times> (error + database)" where
  "Keyword_save backend args db self =
     (let self1 = self\<lparr>keyword_description := take 200 (keyword_description self)\<rparr>;
          (self2, result) = Model_save keyword_id (\<lambda>k w. w\<lparr>keyword_id := k\<rparr>) no_pre_save
                              Keyword_not_null backend args
                              self1 (Keyword_objects db)
      in (self2, case result of
                   Inl e \<Rightarrow> Inl e
                 | Inr rows \<Rightarrow> Inr (db\<lparr>Keyword_objects := rows\<rparr>)))"

text \<open>
  \<^verbatim>\<open>
  def get_synonyms(self):
      return Keyword.objects.filter(review__id=self.review.id, synonym_of__id=self.id)
  \<close>
\<close>

definition get_synonyms :: "database \<Rightarrow> Keyword \<Rightarrow> error + Keyword list" where
  "get_synonyms db self =
     (case related review_id (Review_objects db) (keyword_review self) of
        Inl e \<Rightarrow> Inl e
      | Inr review \<Rightarrow>
          Inr (filter (\<lambda>k. keyword_review k = review_id review \<and> synonym_of k = keyword_id self)
                 (Keyword_objects db)))"

subsection \<open>\<open>Article\<close>\<close>

text \<open>
  \<^verbatim>\<open>
  def get_score(self):
      score = 0.0
      quality_assessments = QualityAssessment.objects.filter(article__id=self.id)
      for quality_assessment in quality_assessments:
          score += quality_assessment.answer.weight
      return score
  \<close>
  \<open>answer\<close> is declared \<open>null=True\<close>; reading \<open>weight\<close> on Python's \<open>None\<close> raises
  \<open>AttributeError\<close>.
\<close>

fun get_score_loop :: "database \<Rightarrow> real \<Rightarrow> QualityAssessment list \<Rightarrow> error + real" where
  "get_score_loop db score [] = Inr score"
| "get_score_loop db score (quality_assessment # rest) =
     (case related_nullable answer_id (QualityAnswer_objects db)
             (assessment_answer quality_assessment) of
        Inl e \<Rightarrow> Inl e
      | Inr None \<Rightarrow> Inl AttributeError
      | Inr (Some answer) \<Rightarrow> get_score_loop db (score + weight answer) rest)"

definition get_score :: "database \<Rightarrow> Article \<Rightarrow> error + real" where
  "get_score db self =
     get_score_loop db 0
       (filter (\<lambda>qa. assessment_article qa = article_id self) (QualityAssessment_objects db))"

subsection \<open>Example data\<close>

definition example_source :: Source where
  "example_source =
     \<lparr>source_pk = Some 1, source_name = ''Scopus'', url = [], is_default = True\<rparr>"

definition example_review :: Review where
  "example_review =
     \<lparr>review_id = Some 1, review_name = ''slr'', review_title = ''A review'',
      review_description = [], review_author = Some 1, create_date = Some 10,
      last_update = Some 100, objective = [], review_status = ''U'',
      quality_assessment_cutoff_score = 0, study_selection_strategy = ''S'',
      quality_assessment_strategy = ''S'', data_extraction_strategy = ''S''\<rparr>"

text \<open>\<open>Article()\<close> with the framework's defaults, and four articles built from it.\<close>

definition Article_init :: Article where
  "Article_init =
     \<lparr>article_id = None, article_review = None, bibtex_key = [], article_title = [],
      article_author = [], journal = [], year = [], article_source = None, pages = [],
      volume = [], article_abstract = [], document_type = [], author_keywords = [],
      article_note = [], search_session = None, article_status = ''U''\<rparr>"

definition example_articles :: "Article list" where
  "example_articles =
     [Article_init\<lparr>article_id := Some 1, article_review := Some 1, article_source := Some 1\<rparr>,
      Article_init\<lparr>article_id := Some 2, article_review := Some 1\<rparr>,
      Article_init\<lparr>article_id := Some 3, article_review := Some 2, article_source := Some 1\<rparr>,
      Article_init\<lparr>article_id := Some 4, article_review := Some 1, article_source := Some 2\<rparr>]"

definition example_questions :: "Question list" where
  "example_questions =
     [Question_init\<lparr>question_id := Some 1, question_review := Some 1,
                    question := ''Which tools exist?'', question_type := ''S''\<rparr>,
      Question_init\<lparr>question_id := Some 2, question_review := Some 2,
                    question := ''What is known?'', question_type := ''M''\<rparr>,
      Question_init\<lparr>question_id := Some 3, question_review := Some 1,
                    question := ''What works?'', question_type := ''M''\<rparr>]"

definition example_users :: "User list" where
  "example_users =
     [\<lparr>user_id = Some 1, username = ''ana''\<rparr>,
      \<lparr>user_id = Some 2, username = ''bo''\<rparr>,
      \<lparr>user_id = Some 3, username = ''cy''\<rparr>,
      \<lparr>user_id = Some 4, username = ''di''\<rparr>]"

definition example_keywords :: "Keyword list" where
  "example_keywords =
     [\<lparr>keyword_id = Some 1, keyword_review = Some 1, keyword_description = ''test'', synonym_of = None\<rparr>,
      \<lparr>keyword_id = Some 2, keyword_review = Some 1, keyword_description = ''check'', synonym_of = Some 1\<rparr>,
      \<lparr>keyword_id = Some 3, keyword_review = Some 2, keyword_description = ''check'', synonym_of = Some 1\<rparr>,
      \<lparr>keyword_id = Some 4, keyword_review = Some 1, keyword_description = ''other'', synonym_of = None\<rparr>]"


definition example_answers :: "QualityAnswer list" where
  "example_answers =
     [\<lparr>answer_id = Some 1, answer_review = Some 1, answer_description = ''Partially'', weight = 1 / 2\<rparr>,
      \<lparr>answer_id = Some 2, answer_review = Some 1, answer_description = ''Yes'', weight = 1\<rparr>,
      \<lparr>answer_id = Some 3, answer_review = Some 1, answer_description = ''No'', weight = 0\<rparr>,
      \<lparr>answer_id = Some 4, answer_review = Some 2, answer_description = ''Fully'', weight = 5\<rparr>]"

definition example_quality_questions :: "QualityQuestion list" where
  "example_quality_questions =
     [\<lparr>quality_question_id = Some 1, quality_question_review = Some 1,
       quality_question_description = ''Are the aims stated?''\<rparr>,
      \<lparr>quality_question_id = Some 2, quality_question_review = Some 2,
       quality_question_description = ''Is the sample described?''\<rparr>,
      \<lparr>quality_question_id = Some 3, quality_question_review = Some 1,
       quality_question_description = ''Are the threats discussed?''\<rparr>,
      \<lparr>quality_question_id = Some 4, quality_question_review = Some 1,
       quality_question_description = ''Is the method described?''\<rparr>]"

definition example_assessments :: "QualityAssessment list" where
  "example_assessments =
     [\<lparr>assessment_id = Some 1, assessment_user = Some 1, assessment_article = Some 1,
       assessment_question = Some 1, assessment_answer = Some 2, assessment_date = Some 20\<rparr>,
      \<lparr>assessment_id = Some 2, assessment_user = Some 1, assessment_article = Some 1,
       assessment_question = Some 3, assessment_answer = Some 1, assessment_date = Some 21\<rparr>,
      \<lparr>assessment_id = Some 3, assessment_user = Some 1, assessment_article = Some 1,
       assessment_question = Some 4, assessment_answer = Some 3, assessment_date = Some 22\<rparr>,
      \<lparr>assessment_id = Some 4, assessment_user = Some 1, assessment_article = Some 2,
       assessment_question = Some 1, assessment_answer = None, assessment_date = Some 23\<rparr>]"

definition example_database :: database where
  "example_database =
     empty_database\<lparr>Article_objects := example_articles,
                     QualityAnswer_objects := example_answers,
                     QualityQuestion_objects := example_quality_questions,
                     QualityAssessment_objects := example_assessments\<rparr>"

text \<open>A backend that refuses no row.\<close>

definition accept_all :: "'a \<Rightarrow> bool" where
  "accept_all row = True"

section \<open>Properties\<close>

lemma str_in_sublist: "str_in needle hay \<longleftrightarrow> sublist needle hay"
  by (induction hay) (simp_all add: sublist_Cons_right)

subsection \<open>\<open>Source.set_url\<close>\<close>

text \<open>
  Claim C1, as the code has it: \<open>set_url\<close> changes only \<open>url\<close>. The new \<open>url\<close> is empty
  when the value is empty, is the value itself when the value contains \<open>http://\<close> or
  \<open>https://\<close> anywhere (at its start in particular), and is \<open>http://\<close> followed by the
  value otherwise.
\<close>

theorem set_url_contains:
  "set_url s v =
     s\<lparr>url := (if v = [] then []
               else if sublist ''http://'' v \<or> sublist ''https://'' v then v
               else ''http://'' @ v)\<rparr>"
  by (simp add: set_url_def str_in_sublist)

theorem set_url_contains_witness:
  "url (set_url example_source ''example.org/?next=http://a'') = ''example.org/?next=http://a''
   \<and> url (set_url example_source ''https://example.org'') = ''https://example.org''
   \<and> url (set_url example_source ''example.org'') = ''http://example.org''
   \<and> url (set_url example_source []) = []"
  using set_url_contains [of example_source "''example.org/?next=http://a''"]
    set_url_contains [of example_source "''https://example.org''"]
    set_url_contains [of example_source "''example.org''"]
    set_url_contains [of example_source "[]"]
  by (simp add: sublist_code)

text \<open>
  The claim as the specification words it tests the start of the value. The value
  \<open>example.org/?next=http://a\<close> is not empty and starts with neither scheme, yet it is
  stored as it is, without the \<open>http://\<close> in front.
\<close>

theorem set_url_starts_with_counterexample:
  "url (set_url example_source ''example.org/?next=http://a'')
     \<noteq> (if ''example.org/?next=http://a'' = [] then []
         else if prefix ''http://'' ''example.org/?next=http://a''
               \<or> prefix ''https://'' ''example.org/?next=http://a''
         then ''example.org/?next=http://a''
         else ''http://'' @ ''example.org/?next=http://a'')"
  by (simp add: set_url_def)

subsection \<open>\<open>DataExtractionField.is_select_field\<close>\<close>

text \<open>
  Claim C9: \<open>is_select_field\<close> is true exactly when \<open>field_type\<close> is \<open>O\<close> (select one) or
  \<open>M\<close> (select many), and false for every other field type.
\<close>

theorem is_select_field_iff:
  "is_select_field f \<longleftrightarrow> field_type f = ''O'' \<or> field_type f = ''M''"
  by (auto simp: is_select_field_def SELECT_ONE_FIELD_def SELECT_MANY_FIELD_def)

theorem is_select_field_iff_witness:
  "is_select_field \<lparr>field_id = Some 1, field_review = Some 1, field_description = ''Design'', field_type = ''O''\<rparr>
   \<and> is_select_field \<lparr>field_id = Some 2, field_review = Some 1, field_description = ''Methods'', field_type = ''M''\<rparr>
   \<and> \<not> is_select_field \<lparr>field_id = Some 3, field_review = Some 1, field_description = ''Year'', field_type = ''I''\<rparr>"
  using is_select_field_iff [of "\<lparr>field_id = Some 1, field_review = Some 1, field_description = ''Design'', field_type = ''O''\<rparr>"]
    is_select_field_iff [of "\<lparr>field_id = Some 2, field_review = Some 1, field_description = ''Methods'', field_type = ''M''\<rparr>"]
    is_select_field_iff [of "\<lparr>field_id = Some 3, field_review = Some 1, field_description = ''Year'', field_type = ''I''\<rparr>"]
  by simp

subsection \<open>\<open>Review.get_source_articles\<close>\<close>

text \<open>
  Claim C10: with a source key, \<open>get_source_articles\<close> returns the articles of the review
  whose source column holds that key, and no others; without one it returns all the
  articles of the review. An article with no source is in no result filtered by source,
  and is in the unfiltered result of its review.
\<close>

theorem get_source_articles_by_source:
  "set (get_source_articles db r (Some s))
     = {a \<in> set (Article_objects db). article_review a = review_id r \<and> article_source a = Some s}
   \<and> set (get_source_articles db r None)
     = {a \<in> set (Article_objects db). article_review a = review_id r}
   \<and> (\<forall>a \<in> set (Article_objects db). article_source a = None \<longrightarrow>
         a \<notin> set (get_source_articles db r (Some s))
         \<and> (article_review a = review_id r \<longrightarrow> a \<in> set (get_source_articles db r None)))"
  by (auto simp: get_source_articles_def)

theorem get_source_articles_by_source_witness:
  "get_source_articles (empty_database\<lparr>Article_objects := example_articles\<rparr>) example_review (Some 1)
     = [example_articles ! 0]
   \<and> article_source (example_articles ! 1) = None
   \<and> example_articles ! 1 \<notin> set (get_source_articles
         (empty_database\<lparr>Article_objects := example_articles\<rparr>) example_review (Some 1))
   \<and> get_source_articles (empty_database\<lparr>Article_objects := example_articles\<rparr>) example_review None
     = [example_articles ! 0, example_articles ! 1, example_articles ! 3]"
  using get_source_articles_by_source
    [of "empty_database\<lparr>Article_objects := example_articles\<rparr>" example_review 1]
  by (simp add: get_source_articles_def empty_database_def example_review_def
      example_articles_def Article_init_def)

subsection \<open>\<open>Review.get_main_question\<close>\<close>

lemma first_get_simps:
  "first_get [] = Inl DoesNotExist"
  "first_get (x # xs) = Inr x"
  by (simp_all add: first_get_def)

lemma first_get_filter_none:
  "\<not> (\<exists>x \<in> set xs. P x) \<Longrightarrow> first_get (filter P xs) = Inl DoesNotExist"
  by (simp add: first_get_simps filter_empty_conv [THEN iffD2])

lemma first_get_filter_some:
  "\<exists>x \<in> set xs. P x \<Longrightarrow> \<exists>x. first_get (filter P xs) = Inr x \<and> x \<in> set xs \<and> P x"
proof -
  assume "\<exists>x \<in> set xs. P x"
  then have "filter P xs \<noteq> []"
    by (simp add: filter_empty_conv)
  then obtain y ys where y: "filter P xs = y # ys"
    by (cases "filter P xs") simp_all
  then have "y \<in> set (filter P xs)" by simp
  then have "y \<in> set xs \<and> P y" by simp
  with y show ?thesis by (simp add: first_get_simps)
qed

lemma first_get_filter_single:
  assumes "x \<in> set xs" "P x" "\<forall>y \<in> set xs. P y \<longrightarrow> y = x"
  shows "first_get (filter P xs) = Inr x"
proof -
  from assms(1,2) have "\<exists>x \<in> set xs. P x" by blast
  from first_get_filter_some [OF this] obtain y
    where y: "first_get (filter P xs) = Inr y" "y \<in> set xs" "P y" by blast
  with assms(3) have "y = x" by blast
  with y show ?thesis by simp
qed


text \<open>
  Claim C5: for a review with no question of type \<open>M\<close> (main), \<open>get_main_question\<close>
  returns \<open>Question()\<close>, a question with every field at its default, and raises nothing;
  for a review whose only main question is \<open>q\<close> it returns \<open>q\<close>. In every case it returns
  a question, and that question is either the default one or a main question of the review.
\<close>

theorem get_main_question_sentinel:
  "(\<not> (\<exists>q \<in> set (Question_objects db). question_review q = review_id r \<and> question_type q = ''M'')
      \<longrightarrow> get_main_question db r = Inr Question_init)
   \<and> (\<forall>q \<in> set (Question_objects db).
        (question_review q = review_id r \<and> question_type q = ''M'')
        \<and> (\<forall>q' \<in> set (Question_objects db).
              question_review q' = review_id r \<and> question_type q' = ''M'' \<longrightarrow> q' = q)
        \<longrightarrow> get_main_question db r = Inr q)
   \<and> (\<exists>q. get_main_question db r = Inr q
          \<and> (q = Question_init
              \<or> q \<in> set (Question_objects db)
                \<and> (question_review q = review_id r \<and> question_type q = ''M'')))"
proof -
  define P where "P = (\<lambda>q::Question. question_review q = review_id r \<and> question_type q = ''M'')"
  define qs where "qs = Question_objects db"
  have g: "get_main_question db r =
      (case first_get (filter P qs) of
         Inl DoesNotExist \<Rightarrow> Inr Question_init | Inl e \<Rightarrow> Inl e | Inr found \<Rightarrow> Inr found)"
    by (simp add: get_main_question_def P_def qs_def)
  have a: "\<not> (\<exists>q \<in> set qs. P q) \<longrightarrow> get_main_question db r = Inr Question_init"
    by (simp add: g first_get_simps)
  have b: "\<forall>q \<in> set qs. P q \<and> (\<forall>q' \<in> set qs. P q' \<longrightarrow> q' = q)
        \<longrightarrow> get_main_question db r = Inr q"
  proof (intro ballI impI)
    fix q
    assume q: "q \<in> set qs" and h: "P q \<and> (\<forall>q' \<in> set qs. P q' \<longrightarrow> q' = q)"
    from h have "P q" and "\<forall>q' \<in> set qs. P q' \<longrightarrow> q' = q" by blast+
    with q have "first_get (filter P qs) = Inr q"
      by (rule first_get_filter_single)
    then show "get_main_question db r = Inr q" by (simp add: g)
  qed
  have c: "\<exists>q. get_main_question db r = Inr q \<and> (q = Question_init \<or> q \<in> set qs \<and> P q)"
  proof (cases "\<exists>q \<in> set qs. P q")
    case True
    from first_get_filter_some [OF True] obtain m
      where "first_get (filter P qs) = Inr m" "m \<in> set qs" "P m" by blast
    then show ?thesis by (simp add: g)
  next
    case False
    with a show ?thesis by simp
  qed
  from a b c show ?thesis
    unfolding P_def qs_def by (intro conjI)
qed


theorem get_main_question_sentinel_witness:
  "get_main_question (empty_database\<lparr>Question_objects := example_questions\<rparr>) example_review
     = Inr (example_questions ! 2)
   \<and> get_main_question (empty_database\<lparr>Question_objects := take 1 example_questions\<rparr>) example_review
     = Inr Question_init
   \<and> question Question_init = [] \<and> question_id Question_init = None"
proof -
  let ?db2 = "empty_database\<lparr>Question_objects := take 1 example_questions\<rparr>"
  let ?db3 = "empty_database\<lparr>Question_objects := example_questions\<rparr>"
  have none: "\<not> (\<exists>q \<in> set (Question_objects ?db2).
      question_review q = review_id example_review \<and> question_type q = ''M'')"
    by (simp add: example_questions_def example_review_def Question_init_def)
  have one: "example_questions ! 2 \<in> set (Question_objects ?db3)
      \<and> (question_review (example_questions ! 2) = review_id example_review
          \<and> question_type (example_questions ! 2) = ''M'')
      \<and> (\<forall>q' \<in> set (Question_objects ?db3).
            question_review q' = review_id example_review \<and> question_type q' = ''M''
            \<longrightarrow> q' = example_questions ! 2)"
    by (simp add: example_questions_def example_review_def Question_init_def)
  from none get_main_question_sentinel [of ?db2 example_review]
  have r2: "get_main_question ?db2 example_review = Inr Question_init"
    by blast
  from one get_main_question_sentinel [of ?db3 example_review]
  have r3: "get_main_question ?db3 example_review = Inr (example_questions ! 2)"
    by blast
  from r2 r3 show ?thesis
    by (simp add: Question_init_def)
qed

subsection \<open>\<open>Review.is_author_or_coauthor\<close> and \<open>Keyword.get_synonyms\<close>\<close>

lemma related_Inr:
  assumes "related pk rows fk = Inr x"
  shows "pk x = fk \<and> x \<in> set rows"
proof -
  from assms obtain k where k: "fk = Some k"
    by (cases fk) (simp_all add: related_def)
  from assms k have "first_get (filter (\<lambda>row. pk row = Some k) rows) = Inr x"
    by (simp add: related_def)
  then obtain ys where "filter (\<lambda>row. pk row = Some k) rows = x # ys"
    by (cases "filter (\<lambda>row. pk row = Some k) rows") (simp_all add: first_get_simps)
  then have "x \<in> set (filter (\<lambda>row. pk row = Some k) rows)"
    by simp
  with k show ?thesis by simp
qed

lemma co_author_loop_iff:
  "co_author_loop user cs \<longleftrightarrow> (\<exists>c \<in> set cs. user_id user = user_id c)"
  by (induction cs) simp_all

text \<open>
  Claim C7: for a saved review whose author is a row of the user table,
  \<open>is_author_or_coauthor\<close> returns true exactly when the key of the user is the key of the
  review's author or the key of one of the users the join table makes a co-author of the
  review, and false for every other user.
\<close>

theorem is_author_or_coauthor_iff:
  assumes saved: "review_id r = Some k"
    and author: "related user_id (User_objects db) (review_author r) = Inr a"
  shows "is_author_or_coauthor db r u =
     Inr (user_id u = review_author r
          \<or> (\<exists>c \<in> set (User_objects db).
                user_id u = user_id c
                \<and> (\<exists>i. user_id c = Some i \<and> (k, i) \<in> set (Review_co_authors db))))"
proof -
  define cs where
    "cs = filter (\<lambda>u. list_ex (\<lambda>(r, c). r = k \<and> user_id u = Some c) (Review_co_authors db))
            (User_objects db)"
  have all: "co_authors_all db r = Inr cs"
    by (simp add: co_authors_all_def saved cs_def)
  have a: "user_id a = review_author r"
    using related_Inr [OF author] by simp
  have mem: "\<And>c. c \<in> set cs \<longleftrightarrow>
      c \<in> set (User_objects db) \<and> (\<exists>i. user_id c = Some i \<and> (k, i) \<in> set (Review_co_authors db))"
    by (auto simp: cs_def list_ex_iff)
  have "is_author_or_coauthor db r u =
      Inr (user_id u = user_id a \<or> co_author_loop u cs)"
    by (simp add: is_author_or_coauthor_def author all)
  also have "(user_id u = user_id a \<or> co_author_loop u cs) \<longleftrightarrow>
      (user_id u = review_author r
       \<or> (\<exists>c \<in> set (User_objects db).
             user_id u = user_id c
             \<and> (\<exists>i. user_id c = Some i \<and> (k, i) \<in> set (Review_co_authors db))))"
    unfolding co_author_loop_iff a using mem by blast
  finally show ?thesis .
qed

theorem is_author_or_coauthor_iff_witness:
  "review_id example_review = Some 1
   \<and> related user_id example_users (review_author example_review) = Inr (example_users ! 0)
   \<and> is_author_or_coauthor
        (empty_database\<lparr>User_objects := example_users, Review_co_authors := [(1, 2), (2, 4), (1, 3)]\<rparr>)
        example_review (example_users ! 0) = Inr True
   \<and> is_author_or_coauthor
        (empty_database\<lparr>User_objects := example_users, Review_co_authors := [(1, 2), (2, 4), (1, 3)]\<rparr>)
        example_review (example_users ! 2) = Inr True
   \<and> is_author_or_coauthor
        (empty_database\<lparr>User_objects := example_users, Review_co_authors := [(1, 2), (2, 4), (1, 3)]\<rparr>)
        example_review (example_users ! 3) = Inr False"
proof -
  let ?db = "empty_database\<lparr>User_objects := example_users, Review_co_authors := [(1, 2), (2, 4), (1, 3)]\<rparr>"
  have saved: "review_id example_review = Some 1"
    by (simp add: example_review_def)
  have author: "related user_id (User_objects ?db) (review_author example_review) = Inr (example_users ! 0)"
    by (simp add: related_def first_get_def example_review_def example_users_def)
  note t = is_author_or_coauthor_iff [OF saved author]
  show ?thesis
    using saved author t [of "example_users ! 0"] t [of "example_users ! 2"] t [of "example_users ! 3"]
    by (simp add: example_users_def example_review_def)
qed

text \<open>
  Claim C8: for a keyword whose review is a row of the review table, \<open>get_synonyms\<close>
  returns exactly the keywords of the same review whose \<open>synonym_of\<close> is the key of the
  keyword, and no keyword of another review, whatever its description.
\<close>

theorem get_synonyms_same_review:
  assumes "related review_id (Review_objects db) (keyword_review k) = Inr rv"
  shows "get_synonyms db k =
           Inr (filter (\<lambda>w. keyword_review w = keyword_review k \<and> synonym_of w = keyword_id k)
                  (Keyword_objects db))
         \<and> (\<forall>w \<in> set (Keyword_objects db).
               keyword_review w \<noteq> keyword_review k \<longrightarrow>
               (\<forall>syn. get_synonyms db k = Inr syn \<longrightarrow> w \<notin> set syn))"
proof -
  have rv: "review_id rv = keyword_review k"
    using related_Inr [OF assms] by simp
  have g: "get_synonyms db k =
      Inr (filter (\<lambda>w. keyword_review w = keyword_review k \<and> synonym_of w = keyword_id k)
             (Keyword_objects db))"
    by (simp add: get_synonyms_def assms rv)
  show ?thesis
    unfolding g by simp
qed

theorem get_synonyms_same_review_witness:
  "related review_id [example_review] (keyword_review (example_keywords ! 0)) = Inr example_review
   \<and> get_synonyms (empty_database\<lparr>Review_objects := [example_review], Keyword_objects := example_keywords\<rparr>)
       (example_keywords ! 0) = Inr [example_keywords ! 1]
   \<and> keyword_description (example_keywords ! 2) = keyword_description (example_keywords ! 1)
   \<and> synonym_of (example_keywords ! 2) = keyword_id (example_keywords ! 0)"
proof -
  let ?db = "empty_database\<lparr>Review_objects := [example_review], Keyword_objects := example_keywords\<rparr>"
  have rel: "related review_id (Review_objects ?db) (keyword_review (example_keywords ! 0)) = Inr example_review"
    by (simp add: related_def first_get_def example_review_def example_keywords_def)
  show ?thesis
    using rel get_synonyms_same_review [OF rel]
    by (simp add: example_keywords_def)
qed

subsection \<open>\<open>Review.calculate_quality_assessment_max_score\<close>\<close>

lemma order_by_weight_desc_first:
  assumes "rows \<noteq> []"
  shows "\<exists>a. first_get (order_by_weight_desc rows) = Inr a
             \<and> a \<in> set rows \<and> weight a = Max (weight ` set rows)"
proof -
  let ?f = "\<lambda>a::QualityAnswer. - weight a"
  let ?ys = "sort_key ?f rows"
  have "length ?ys = length rows" by simp
  with assms have "?ys \<noteq> []" by (metis length_0_conv)
  then obtain y ys where ys: "?ys = y # ys" by (cases ?ys) simp_all
  have srt: "sorted (map ?f ?ys)" by (rule sorted_sort_key)
  have st: "set ?ys = set rows" by simp
  from ys st have y_in: "y \<in> set rows" by (metis list.set_intros(1))
  have le: "weight z \<le> weight y" if "z \<in> set rows" for z
  proof -
    from that st ys have "z = y \<or> z \<in> set ys" by (metis set_ConsD)
    moreover from srt ys have "\<forall>z \<in> set ys. ?f y \<le> ?f z" by simp
    ultimately show ?thesis by auto
  qed
  have "Max (weight ` set rows) = weight y"
  proof (rule Max_eqI)
    show "finite (weight ` set rows)" by simp
    show "weight y \<in> weight ` set rows" using y_in by simp
    show "\<And>w. w \<in> weight ` set rows \<Longrightarrow> w \<le> weight y" using le by auto
  qed
  moreover have "first_get (order_by_weight_desc rows) = Inr y"
    by (simp add: order_by_weight_desc_def ys first_get_simps)
  ultimately show ?thesis using y_in by simp
qed

text \<open>
  Claim C3: \<open>calculate_quality_assessment_max_score\<close> never raises. It returns 0 when
  the review has no quality question or no quality answer, and otherwise the number of the
  review's quality questions times the highest weight among the review's quality answers.
\<close>

theorem max_score_product:
  "calculate_quality_assessment_max_score db r =
     Inr (if filter (\<lambda>q. quality_question_review q = review_id r) (QualityQuestion_objects db) = []
             \<or> filter (\<lambda>a. answer_review a = review_id r) (QualityAnswer_objects db) = []
          then 0
          else real (length (filter (\<lambda>q. quality_question_review q = review_id r)
                               (QualityQuestion_objects db)))
               * Max (weight ` set (filter (\<lambda>a. answer_review a = review_id r)
                                      (QualityAnswer_objects db))))"
proof -
  define qs where
    "qs = filter (\<lambda>q. quality_question_review q = review_id r) (QualityQuestion_objects db)"
  define ans where
    "ans = filter (\<lambda>a. answer_review a = review_id r) (QualityAnswer_objects db)"
  have body: "max_score_try db r =
      (case first_get (order_by_weight_desc ans) of
         Inl e \<Rightarrow> Inl e
       | Inr h \<Rightarrow> if length qs \<noteq> 0 then Inr (real (length qs) * weight h) else Inr 0)"
    by (simp add: max_score_try_def qs_def ans_def truth_def Let_def split: sum.splits)
  have "calculate_quality_assessment_max_score db r =
      Inr (if qs = [] \<or> ans = [] then 0 else real (length qs) * Max (weight ` set ans))"
  proof (cases "ans = []")
    case True
    then have "max_score_try db r = Inl DoesNotExist"
      by (simp add: body order_by_weight_desc_def first_get_simps)
    with True show ?thesis
      by (simp add: calculate_quality_assessment_max_score_def)
  next
    case False
    from order_by_weight_desc_first [OF False] obtain h
      where h: "first_get (order_by_weight_desc ans) = Inr h" "weight h = Max (weight ` set ans)"
      by blast
    from h False show ?thesis
      by (simp add: calculate_quality_assessment_max_score_def body)
  qed
  then show ?thesis
    by (simp only: qs_def ans_def)
qed

theorem max_score_product_witness:
  "calculate_quality_assessment_max_score example_database example_review = Inr 3
   \<and> calculate_quality_assessment_max_score
        (example_database\<lparr>QualityQuestion_objects := []\<rparr>) example_review = Inr 0
   \<and> calculate_quality_assessment_max_score
        (example_database\<lparr>QualityAnswer_objects := []\<rparr>) example_review = Inr 0"
  using max_score_product [of example_database example_review]
    max_score_product [of "example_database\<lparr>QualityQuestion_objects := []\<rparr>" example_review]
    max_score_product [of "example_database\<lparr>QualityAnswer_objects := []\<rparr>" example_review]
  by (simp add: example_database_def example_review_def example_answers_def
      example_quality_questions_def)

subsection \<open>\<open>Article.get_score\<close>\<close>

text \<open>
  An assessment whose answer is NULL stops the loop with an exception, whatever the
  other assessments hold; with answers of weights 1, 1/2 and 0 the score is 3/2, and
  with no assessment it is 0.
\<close>

lemma get_score_loop_absent:
  "\<exists>qa \<in> set qas. assessment_answer qa = None \<Longrightarrow> \<exists>e. get_score_loop db score qas = Inl e"
proof (induction qas arbitrary: score)
  case Nil
  then show ?case by simp
next
  case (Cons qa qas)
  show ?case
  proof (cases "related_nullable answer_id (QualityAnswer_objects db) (assessment_answer qa)")
    case (Inl e)
    then show ?thesis by simp
  next
    case (Inr found)
    show ?thesis
    proof (cases found)
      case None
      with Inr show ?thesis by simp
    next
      case (Some a)
      with Inr have "assessment_answer qa \<noteq> None"
        by (auto simp: related_nullable_def split: option.splits)
      with Cons.prems have "\<exists>qa \<in> set qas. assessment_answer qa = None" by auto
      from Cons.IH [OF this] Inr Some show ?thesis by simp
    qed
  qed
qed

lemma get_score_examples:
  "get_score example_database (example_articles ! 0) = Inr (3 / 2)"
  "get_score example_database (example_articles ! 2) = Inr 0"
  by (simp_all add: get_score_def example_database_def example_articles_def Article_init_def
      example_assessments_def example_answers_def related_nullable_def first_get_def)

text \<open>
  Claim C2 says that an assessment without an answer adds 0 to the score and that
  \<open>get_score\<close> never raises. On the second example article, whose only assessment has
  no answer, the code raises \<open>AttributeError\<close> instead of returning 0.
\<close>

theorem get_score_absent_answer_raises:
  "assessment_answer (example_assessments ! 3) = None
   \<and> assessment_article (example_assessments ! 3) = article_id (example_articles ! 1)
   \<and> get_score example_database (example_articles ! 1) = Inl AttributeError"
  by (simp add: get_score_def example_database_def example_articles_def Article_init_def
      example_assessments_def example_answers_def related_nullable_def first_get_def)

subsection \<open>Saving through the framework\<close>

lemma fold_max_ge_init: "(a::nat) \<le> fold max xs a"
proof (induction xs arbitrary: a)
  case Nil
  show ?case by simp
next
  case (Cons x xs)
  have "a \<le> max x a" by simp
  also have "max x a \<le> fold max xs (max x a)" by (rule Cons.IH)
  finally show ?case by simp
qed

lemma fold_max_ge_elem: "x \<in> set xs \<Longrightarrow> (x::nat) \<le> fold max xs a"
proof (induction xs arbitrary: a)
  case Nil
  then show ?case by simp
next
  case (Cons y ys)
  show ?case
  proof (cases "x = y")
    case True
    have "x \<le> max y a" using True by simp
    also have "max y a \<le> fold max ys (max y a)" by (rule fold_max_ge_init)
    finally show ?thesis by simp
  next
    case False
    with Cons.prems have "x \<in> set ys" by simp
    then have "x \<le> fold max ys (max y a)" by (rule Cons.IH)
    then show ?thesis by simp
  qed
qed

lemma next_key_fresh:
  assumes "row \<in> set rows"
  shows "pk row \<noteq> Some (next_key pk rows)"
proof
  assume eq: "pk row = Some (next_key pk rows)"
  let ?f = "\<lambda>row. case pk row of None \<Rightarrow> 0 | Some k \<Rightarrow> k"
  from assms have "?f row \<in> set (map ?f rows)" by simp
  then have "?f row \<le> fold max (map ?f rows) 0" by (rule fold_max_ge_elem)
  moreover from eq have "?f row = next_key pk rows" by simp
  ultimately show False by (simp add: next_key_def)
qed

lemma Model_update_accepted:
  assumes "Model_update pk not_null backend k obj rows = Inr rows'"
  shows "rows' = map (\<lambda>row. if pk row = Some k then obj else row) rows"
    and "\<exists>old \<in> set rows. pk old = Some k"
  using assms by (simp_all add: Model_update_def list_ex_iff split: if_splits)

lemma Model_insert_accepted:
  assumes "Model_insert pk set_pk not_null backend obj rows = (obj', Inr rows')"
  shows "rows' = rows @ [obj']"
    and "pk obj = None \<Longrightarrow> obj' = set_pk (Some (next_key pk rows)) obj"
    and "pk obj \<noteq> None \<Longrightarrow> obj' = obj \<and> (\<forall>old \<in> set rows. pk old \<noteq> pk obj)"
  using assms
  by (auto simp: Model_insert_def Let_def list_ex_iff split: if_splits option.splits)

lemma Model_insert_fst:
  "fst (Model_insert pk set_pk not_null backend obj rows) = obj
   \<or> (\<exists>k. fst (Model_insert pk set_pk not_null backend obj rows) = set_pk (Some k) obj)"
  by (auto simp: Model_insert_def Let_def split: option.splits)

lemma Model_save_fst:
  "fst (Model_save pk set_pk pre_save not_null backend args obj rows) = obj
   \<or> (\<exists>add. fst (Model_save pk set_pk pre_save not_null backend args obj rows) = pre_save add obj)
   \<or> (\<exists>add k. fst (Model_save pk set_pk pre_save not_null backend args obj rows)
                 = set_pk (Some k) (pre_save add obj))"
proof -
  let ?i = "Model_insert pk set_pk not_null backend (pre_save True obj) rows"
  let ?m = "Model_save pk set_pk pre_save not_null backend args obj rows"
  have "fst ?m = obj \<or> fst ?m = pre_save False obj \<or> fst ?m = fst ?i"
    by (simp add: Model_save_def split: option.splits)
  moreover have "fst ?i = pre_save True obj \<or> (\<exists>k. fst ?i = set_pk (Some k) (pre_save True obj))"
    by (rule Model_insert_fst)
  ultimately show ?thesis by metis
qed

lemma Model_save_cases:
  assumes "Model_save pk set_pk pre_save not_null backend args obj rows = (obj', Inr rows')"
  shows "(\<exists>k. pk obj = Some k \<and> obj' = pre_save False obj
              \<and> Model_update pk not_null backend k obj' rows = Inr rows')
         \<or> Model_insert pk set_pk not_null backend (pre_save True obj) rows = (obj', Inr rows')"
  using assms by (auto simp: Model_save_def split: if_splits option.splits)

lemma Model_save_accepted:
  assumes pk_set: "\<And>k x. pk (set_pk k x) = k"
    and pk_pre: "\<And>add x. pk (pre_save add x) = pk x"
    and acc: "Model_save pk set_pk pre_save not_null backend args obj rows = (obj', Inr rows')"
  shows "obj' \<in> set rows' \<and> (\<forall>row \<in> set rows'. pk row = pk obj' \<longrightarrow> row = obj')"
  using Model_save_cases [OF acc]
proof (elim disjE exE conjE)
  fix k
  assume k: "pk obj = Some k" and o: "obj' = pre_save False obj"
    and u: "Model_update pk not_null backend k obj' rows = Inr rows'"
  from k o pk_pre have pk': "pk obj' = Some k" by simp
  note rows' = Model_update_accepted(1) [OF u]
  from Model_update_accepted(2) [OF u] obtain old where "old \<in> set rows" "pk old = Some k"
    by blast
  then have mem: "obj' \<in> set rows'"
    unfolding rows' by force
  have "row = obj'" if "row \<in> set rows'" "pk row = pk obj'" for row
  proof -
    from that(1) have "row \<in> (\<lambda>old. if pk old = Some k then obj' else old) ` set rows"
      unfolding rows' by simp
    then obtain old where "row = (if pk old = Some k then obj' else old)"
      by (rule imageE)
    with that(2) pk' show ?thesis by (cases "pk old = Some k") simp_all
  qed
  with mem show ?thesis by blast
next
  assume i: "Model_insert pk set_pk not_null backend (pre_save True obj) rows = (obj', Inr rows')"
  note rows' = Model_insert_accepted(1) [OF i]
  have mem: "obj' \<in> set rows'" unfolding rows' by simp
  have "row = obj'" if row: "row \<in> set rows'" and key: "pk row = pk obj'" for row
  proof (cases "pk (pre_save True obj)")
    case None
    from Model_insert_accepted(2) [OF i None] pk_set
    have "pk obj' = Some (next_key pk rows)" by simp
    with key next_key_fresh [of row rows pk] have "row \<notin> set rows" by auto
    with row show ?thesis unfolding rows' by simp
  next
    case (Some k)
    then have "pk (pre_save True obj) \<noteq> None" by simp
    from Model_insert_accepted(3) [OF i this]
    have "obj' = pre_save True obj" and "\<forall>old \<in> set rows. pk old \<noteq> pk (pre_save True obj)"
      by simp_all
    with key have "row \<notin> set rows" by auto
    with row show ?thesis unfolding rows' by simp
  qed
  with mem show ?thesis by blast
qed

subsection \<open>\<open>Review.save\<close>\<close>

lemma Review_save_parts:
  "fst (Review_save backend now created db r)
     = fst (Model_save review_id (\<lambda>k r. r\<lparr>review_id := k\<rparr>) (Review_pre_save created)
              Review_not_null backend default_args (r\<lparr>last_update := Some now\<rparr>) (Review_objects db))"
  "snd (Review_save backend now created db r) = Inr db' \<Longrightarrow>
     snd (Model_save review_id (\<lambda>k r. r\<lparr>review_id := k\<rparr>) (Review_pre_save created)
              Review_not_null backend default_args (r\<lparr>last_update := Some now\<rparr>) (Review_objects db))
       = Inr (Review_objects db')"
  by (auto simp: Review_save_def Let_def split: prod.splits sum.splits)

lemma Review_save_stamp:
  "last_update (fst (Review_save backend now created db r)) = Some now"
  using Model_save_fst [of review_id "\<lambda>k r. r\<lparr>review_id := k\<rparr>" "Review_pre_save created"
      Review_not_null backend default_args "r\<lparr>last_update := Some now\<rparr>" "Review_objects db"]
  by (auto simp: Review_save_parts(1) Review_pre_save_def)

lemma Review_save_rows:
  assumes "snd (Review_save backend now created db r) = Inr db'"
  shows "fst (Review_save backend now created db r) \<in> set (Review_objects db')
         \<and> (\<forall>row \<in> set (Review_objects db').
               review_id row = review_id (fst (Review_save backend now created db r))
               \<longrightarrow> row = fst (Review_save backend now created db r))"
proof -
  let ?m = "Model_save review_id (\<lambda>k r. r\<lparr>review_id := k\<rparr>) (Review_pre_save created)
              Review_not_null backend default_args (r\<lparr>last_update := Some now\<rparr>) (Review_objects db)"
  have m: "?m = (fst (Review_save backend now created db r), Inr (Review_objects db'))"
    using Review_save_parts(2) [OF assms] Review_save_parts(1) [of backend now created db r]
    by (metis prod.collapse)
  show ?thesis
  proof (rule Model_save_accepted [OF _ _ m])
    show "\<And>k x. review_id (x\<lparr>review_id := k\<rparr>) = k" by simp
    show "\<And>add x. review_id (Review_pre_save created add x) = review_id x"
      by (simp add: Review_pre_save_def)
  qed
qed

text \<open>
  What the model of the database does with the required columns: a review without an
  author is refused, and a review with one is accepted by a backend that refuses nothing
  (an update needs \<open>create_date\<close> as well, an insert sets it).
\<close>

lemma Review_save_author_unset:
  "review_author r = None \<Longrightarrow> snd (Review_save backend now created db r) = Inl IntegrityError"
  by (simp add: Review_save_def Model_save_def Model_insert_def Model_update_def default_args_def
      Review_not_null_def Review_pre_save_def Let_def split: option.splits)

lemma Review_save_accepted:
  assumes "review_author r \<noteq> None" and "review_id r = None \<or> create_date r \<noteq> None"
    and "\<And>row. backend row"
  shows "\<exists>db'. snd (Review_save backend now created db r) = Inr db'"
  using assms
  by (auto simp: Review_save_def Model_save_def Model_insert_def Model_update_def default_args_def
      Review_not_null_def Review_pre_save_def Let_def split: option.splits)

text \<open>
  Claim C4, as the code has it: saving a review stamps \<open>last_update\<close> on the object
  with the clock reading, whatever value the caller had put there, also when the
  database then refuses the write. When the save is accepted the stamped object is a
  row of the table and every row under its key carries the stamp. The stamp is at or after
  the value before the save exactly when that value is not later than the clock reading.
\<close>

theorem Review_save_last_update:
  "last_update (fst (Review_save backend now created db r)) = Some now
   \<and> (\<forall>db'. snd (Review_save backend now created db r) = Inr db' \<longrightarrow>
         fst (Review_save backend now created db r) \<in> set (Review_objects db')
         \<and> (\<forall>row \<in> set (Review_objects db').
               review_id row = review_id (fst (Review_save backend now created db r))
               \<longrightarrow> last_update row = Some now))
   \<and> (\<forall>t. last_update r = Some t \<longrightarrow>
         (t \<le> now \<longleftrightarrow>
            (\<exists>t'. last_update (fst (Review_save backend now created db r)) = Some t' \<and> t \<le> t')))"
proof (intro conjI allI impI ballI)
  show stamp: "last_update (fst (Review_save backend now created db r)) = Some now"
    by (rule Review_save_stamp)
  fix t
  show "t \<le> now \<longleftrightarrow>
      (\<exists>t'. last_update (fst (Review_save backend now created db r)) = Some t' \<and> t \<le> t')"
    by (simp add: stamp)
next
  fix db'
  assume "snd (Review_save backend now created db r) = Inr db'"
  then show "fst (Review_save backend now created db r) \<in> set (Review_objects db')"
    using Review_save_rows by blast
next
  fix db' row
  assume acc: "snd (Review_save backend now created db r) = Inr db'"
    and "row \<in> set (Review_objects db')"
    and "review_id row = review_id (fst (Review_save backend now created db r))"
  with Review_save_rows [OF acc] have "row = fst (Review_save backend now created db r)"
    by blast
  then show "last_update row = Some now"
    by (simp add: Review_save_stamp)
qed


theorem Review_save_last_update_witness:
  "last_update example_review = Some 100 \<and> (100::int) \<le> 250
   \<and> snd (Review_save accept_all 250 251 (empty_database\<lparr>Review_objects := [example_review]\<rparr>)
            example_review)
       = Inr (empty_database\<lparr>Review_objects := [example_review\<lparr>last_update := Some 250\<rparr>]\<rparr>)
   \<and> last_update (fst (Review_save accept_all 250 251
                          (empty_database\<lparr>Review_objects := [example_review]\<rparr>) example_review))
       = Some 250
   \<and> fst (Review_save accept_all 250 251 (empty_database\<lparr>Review_objects := [example_review]\<rparr>)
            example_review)
       \<in> set [example_review\<lparr>last_update := Some 250\<rparr>]"
proof -
  let ?db = "empty_database\<lparr>Review_objects := [example_review]\<rparr>"
  let ?db' = "empty_database\<lparr>Review_objects := [example_review\<lparr>last_update := Some 250\<rparr>]\<rparr>"
  have acc: "snd (Review_save accept_all 250 251 ?db example_review) = Inr ?db'"
    by (simp add: Review_save_def Model_save_def Model_update_def default_args_def accept_all_def
        Review_not_null_def Review_pre_save_def Let_def empty_database_def example_review_def)
  have before: "last_update example_review = Some 100"
    by (simp add: example_review_def)
  from Review_save_last_update [of accept_all 250 251 ?db example_review] acc
  have "last_update (fst (Review_save accept_all 250 251 ?db example_review)) = Some 250"
    and "fst (Review_save accept_all 250 251 ?db example_review) \<in> set (Review_objects ?db')"
    by blast+
  with acc before show ?thesis by simp
qed

text \<open>
  The claim as the specification words it has \<open>last_update\<close> never move back. A caller
  who sets \<open>last_update\<close> to 300 and saves when the clock reads 250 gets 250, on the
  object and in the table.
\<close>

theorem Review_save_monotone_counterexample:
  "last_update (example_review\<lparr>last_update := Some 300\<rparr>) = Some 300
   \<and> Review_save accept_all 250 251 (empty_database\<lparr>Review_objects := [example_review]\<rparr>)
        (example_review\<lparr>last_update := Some 300\<rparr>)
       = (example_review\<lparr>last_update := Some 250\<rparr>,
          Inr (empty_database\<lparr>Review_objects := [example_review\<lparr>last_update := Some 250\<rparr>]\<rparr>))
   \<and> \<not> the (last_update (example_review\<lparr>last_update := Some 300\<rparr>))
         \<le> the (last_update (fst (Review_save accept_all 250 251
                                      (empty_database\<lparr>Review_objects := [example_review]\<rparr>)
                                      (example_review\<lparr>last_update := Some 300\<rparr>))))"
  by (simp add: Review_save_def Model_save_def Model_update_def default_args_def accept_all_def
      Review_not_null_def Review_pre_save_def Let_def empty_database_def example_review_def)

subsection \<open>\<open>SelectionCriteria.save\<close> and \<open>Keyword.save\<close>\<close>







text \<open>
  A selection criteria or a keyword without a review is refused; with one, a plain save is
  accepted by a backend that refuses nothing.
\<close>

lemma save_review_unset:
  "criteria_review c = None \<Longrightarrow>
     snd (SelectionCriteria_save backend default_args db c) = Inl IntegrityError"
  "keyword_review w = None \<Longrightarrow>
     snd (Keyword_save backend' default_args db w) = Inl IntegrityError"
  by (auto simp: SelectionCriteria_save_def Keyword_save_def Model_save_def Model_insert_def
      Model_update_def default_args_def SelectionCriteria_not_null_def Keyword_not_null_def
      no_pre_save_def Let_def split: option.splits)

lemma save_accepted:
  "criteria_review c \<noteq> None \<Longrightarrow> (\<And>row. backend row) \<Longrightarrow>
     \<exists>db'. snd (SelectionCriteria_save backend default_args db c) = Inr db'"
  "keyword_review w \<noteq> None \<Longrightarrow> (\<And>row. backend' row) \<Longrightarrow>
     \<exists>db'. snd (Keyword_save backend' default_args db w) = Inr db'"
  by (auto simp: SelectionCriteria_save_def Keyword_save_def Model_save_def Model_insert_def
      Model_update_def default_args_def SelectionCriteria_not_null_def Keyword_not_null_def
      no_pre_save_def Let_def split: option.splits)



end
